theory Spec2Isabelle
  imports Main "HOL-Library.Word"
begin

unbundle bit_operations_syntax

section \<open>Data model\<close>

type_synonym byte = "8 word"

text \<open>
  Every failure of \<^verbatim>\<open>bdaddr.py\<close> is a \<^verbatim>\<open>BDAddrException\<close> that differs from the
  others by its message only, so the message is kept.  \<open>HCI_Error\<close> is what
  \<^verbatim>\<open>send_command(..., check_result=True)\<close> raises on a non-success status,
  \<open>IndexError\<close> is Python's out-of-range read, \<open>InvalidStateError\<close> is what a
  future raises when it is resolved twice.
\<close>

datatype error =
    BDAddrException string
  | HCI_Error nat
  | IndexError
  | InvalidStateError

abbreviation InvalidAddressType :: error where
  "InvalidAddressType \<equiv> BDAddrException ''address should be PUBLIC_DEVICE_ADDRESS''"

abbreviation MissingIdentification :: error where
  "MissingIdentification \<equiv> BDAddrException ''No available local_version''"

abbreviation UnsupportedManufacturer :: error where
  "UnsupportedManufacturer \<equiv> BDAddrException ''Unsupported manufacturer''"

abbreviation CSRWriteFailed :: error where
  "CSRWriteFailed \<equiv> BDAddrException ''Write BDAddr (CSR) failed''"

abbreviation SomeErrorOccurred :: error where
  "SomeErrorOccurred \<equiv> BDAddrException ''Some error occurred''"

text \<open>\<^verbatim>\<open>Address\<close>: the raw bytes (\<^verbatim>\<open>bytes(address)\<close>) and the type tag.\<close>

record address =
  address_bytes :: "byte list"
  address_type :: nat

definition PUBLIC_DEVICE_ADDRESS :: nat where
  "PUBLIC_DEVICE_ADDRESS = 0"

text \<open>
  An \<^verbatim>\<open>HCI_Command\<close> object as the decorator \<^verbatim>\<open>_hci_command\<close> builds it: the class
  name (\<^verbatim>\<open>cls.__name__.upper().strip("_")\<close>), the op-code, and the parameter bytes
  serialised from the declared fields.
\<close>

record hci_command =
  name :: string
  op_code :: nat
  parameters :: "byte list"

record hci_event =
  event_code :: nat
  event_parameters :: "byte list"

text \<open>Python's \<^verbatim>\<open>xs[i]\<close> for a literal index \<open>i \<ge> 0\<close>: out of range raises.\<close>

definition idx :: "'a list \<Rightarrow> nat \<Rightarrow> error + 'a" where
  "idx xs i = (if i < length xs then Inr (xs ! i) else Inl IndexError)"

definition bind_e :: "error + 'a \<Rightarrow> ('a \<Rightarrow> error + 'b) \<Rightarrow> error + 'b" where
  "bind_e m f = (case m of Inl e \<Rightarrow> Inl e | Inr x \<Rightarrow> f x)"

section \<open>Command encoders\<close>

text \<open>\<^verbatim>\<open>hci_command_op_code(ogf, ocf)\<close> of the HCI library: \<^verbatim>\<open>ogf << 10 | ocf\<close>.\<close>

definition hci_command_op_code :: "nat \<Rightarrow> nat \<Rightarrow> nat" where
  "hci_command_op_code ogf ocf = (push_bit 10 ogf) OR ocf"

text \<open>The two halves of an op-code: the namespace (OGF) and the command number (OCF).\<close>

definition op_code_ogf :: "nat \<Rightarrow> nat" where
  "op_code_ogf op = drop_bit 10 op"

definition op_code_ocf :: "nat \<Rightarrow> nat" where
  "op_code_ocf op = op AND 0x3FF"

text \<open>
  The classes of lines 176--238.  A field declared with \<^verbatim>\<open>Address.parse_address\<close> is
  serialised as \<^verbatim>\<open>bytes(address)\<close>; the \<^verbatim>\<open>"*"\<close> field of the CSR class is the payload
  itself; the flash command has two one-byte fields and a data field of fixed width
  253, zero-padded (or cut) to that width.
\<close>

definition Ericsson_Write_BDAddr_Command :: "address \<Rightarrow> hci_command" where
  "Ericsson_Write_BDAddr_Command address =
     \<lparr>name = ''ERICSSON_WRITE_BDADDR_COMMAND'',
      op_code = hci_command_op_code 0x3F 0x000D,
      parameters = address_bytes address\<rparr>"

definition Ericsson_Store_In_Flash_Command :: "byte \<Rightarrow> byte \<Rightarrow> byte list \<Rightarrow> hci_command" where
  "Ericsson_Store_In_Flash_Command user_id len data =
     \<lparr>name = ''ERICSSON_STORE_IN_FLASH_COMMAND'',
      op_code = hci_command_op_code 0x3F 0x0022,
      parameters = [user_id, len] @ take 253 (data @ replicate (253 - length data) 0)\<rparr>"

definition CSR_Write_BDAddr_Command :: "byte list \<Rightarrow> hci_command" where
  "CSR_Write_BDAddr_Command payload =
     \<lparr>name = ''CSR_WRITE_BDADDR_COMMAND'',
      op_code = hci_command_op_code 0x3F 0x0000,
      parameters = payload\<rparr>"

definition TI_Write_BDAddr_Command :: "address \<Rightarrow> hci_command" where
  "TI_Write_BDAddr_Command address =
     \<lparr>name = ''TI_WRITE_BDADDR_COMMAND'',
      op_code = hci_command_op_code 0x3F 0x0006,
      parameters = address_bytes address\<rparr>"

definition BCM_Write_BDAddr_Command :: "address \<Rightarrow> hci_command" where
  "BCM_Write_BDAddr_Command address =
     \<lparr>name = ''BCM_WRITE_BDADDR_COMMAND'',
      op_code = hci_command_op_code 0x3F 0x0001,
      parameters = address_bytes address\<rparr>"

definition Intel_Write_BDAddr_Command :: "address \<Rightarrow> hci_command" where
  "Intel_Write_BDAddr_Command address =
     \<lparr>name = ''INTEL_WRITE_BDADDR_COMMAND'',
      op_code = hci_command_op_code 0x3F 0x0031,
      parameters = address_bytes address\<rparr>"

definition CYS_Write_BDAddr_Command :: "address \<Rightarrow> hci_command" where
  "CYS_Write_BDAddr_Command address =
     \<lparr>name = ''CYS_WRITE_BDADDR_COMMAND'',
      op_code = hci_command_op_code 0x3F 0x0001,
      parameters = address_bytes address\<rparr>"

definition Zeevo_Write_BDAddr_Command :: "address \<Rightarrow> hci_command" where
  "Zeevo_Write_BDAddr_Command address =
     \<lparr>name = ''ZEEVO_WRITE_BDADDR_COMMAND'',
      op_code = hci_command_op_code 0x3F 0x0001,
      parameters = address_bytes address\<rparr>"

text \<open>The library's parameterless reset command (OGF 0x03, OCF 0x0003).\<close>

definition HCI_Reset_Command :: hci_command where
  "HCI_Reset_Command =
     \<lparr>name = ''HCI_RESET_COMMAND'',
      op_code = hci_command_op_code 0x03 0x0003,
      parameters = []\<rparr>"

text \<open>
  What the transport carries for a command object: the packet type 0x01, the op-code
  in little-endian order, the parameter length, the parameters.  The class name does
  not travel.  (All parameter lists built here are shorter than 256 bytes.)
\<close>

definition to_bytes :: "hci_command \<Rightarrow> byte list" where
  "to_bytes c =
     [0x01, of_nat (op_code c mod 256), of_nat (op_code c div 256 mod 256),
      of_nat (length (parameters c))] @ parameters c"

subsection \<open>The CSR raw packets\<close>

text \<open>\<^verbatim>\<open>bytearray.fromhex("02000c001147037000000100040000000000000000000000")\<close>\<close>

definition csr_write_template :: "byte list" where
  "csr_write_template =
     [0x02, 0x00, 0x0c, 0x00, 0x11, 0x47, 0x03, 0x70,
      0x00, 0x00, 0x01, 0x00, 0x04, 0x00, 0x00, 0x00,
      0x00, 0x00, 0x00, 0x00, 0x00, 0x00, 0x00, 0x00]"

text \<open>\<^verbatim>\<open>bytearray.fromhex("020009000000014000000000000000000000")\<close>\<close>

definition csr_reset_template :: "byte list" where
  "csr_reset_template =
     [0x02, 0x00, 0x09, 0x00, 0x00, 0x00, 0x01, 0x40,
      0x00, 0x00, 0x00, 0x00, 0x00, 0x00, 0x00, 0x00,
      0x00, 0x00]"

text \<open>
  Lines 96--108 of \<^verbatim>\<open>_csr_bdaddr\<close>: the payload handed to the CSR command class.  The
  reads of \<^verbatim>\<open>address_bytes\<close> happen in the order 2, 0, 1, 3, 4, 5, each of them able
  to raise.
\<close>

definition csr_bdaddr_payload :: "address \<Rightarrow> bool \<Rightarrow> error + byte list" where
  "csr_bdaddr_payload address transient =
     (let payload = csr_write_template;
          payload = (if transient then payload[14 := 0x08] else payload);
          address_bytes = address_bytes address
      in bind_e (idx address_bytes 2) (\<lambda>b.
           let payload = payload[16 := b]; payload = payload[17 := 0x00]
           in bind_e (idx address_bytes 0) (\<lambda>b.
           let payload = payload[18 := b]
           in bind_e (idx address_bytes 1) (\<lambda>b.
           let payload = payload[19 := b]
           in bind_e (idx address_bytes 3) (\<lambda>b.
           let payload = payload[20 := b]; payload = payload[21 := 0x00]
           in bind_e (idx address_bytes 4) (\<lambda>b.
           let payload = payload[22 := b]
           in bind_e (idx address_bytes 5) (\<lambda>b.
           let payload = payload[23 := b]
           in Inr (0xC2 # payload))))))))"

text \<open>Lines 114--117 of \<^verbatim>\<open>_csr_reset\<close>.\<close>

definition csr_reset_payload :: "bool \<Rightarrow> byte list" where
  "csr_reset_payload transient =
     (let payload = csr_reset_template;
          payload = (if transient then payload[6 := 0x02] else payload)
      in 0xC2 # payload)"

section \<open>The host, its notification handler and its futures\<close>

text \<open>
  A notification handler is either one that was installed before this code ran (opaque,
  identified by a number) or the closure \<^verbatim>\<open>on_hci_event\<close> that \<^verbatim>\<open>_csr_get_response\<close>
  defines, which captures its future and \<^verbatim>\<open>origin_on_hci_event\<close>.
\<close>

datatype handler =
    External nat
  | Csr_on_hci_event nat handler

datatype future = Pending | Result | Exception error

record hci_local_version =
  company_identifier :: nat

text \<open>
  \<^verbatim>\<open>device.host\<close> with what this code reads and writes, and its surroundings made
  explicit: \<open>controller\<close> is the status the controller answers to a command packet,
  \<open>incoming\<close> the notifications that arrive while a coroutine is suspended on a
  future, \<open>install_raises\<close> whether the body of the \<^verbatim>\<open>try\<close> in
  \<^verbatim>\<open>_csr_get_response\<close> raises.  \<open>sent\<close> logs the packets given to the transport,
  \<open>delivered\<close> the notifications that reached an external handler, \<open>slot_writes\<close>
  every assignment to \<^verbatim>\<open>on_hci_event\<close>, \<open>handler_errors\<close> what a handler raised into
  the dispatching host.
\<close>

record host =
  on_hci_event :: handler
  local_version :: "hci_local_version option"
  controller :: "byte list \<Rightarrow> nat"
  incoming :: "hci_event list"
  install_raises :: bool
  sent :: "byte list list"
  delivered :: "(nat \<times> hci_event) list"
  futures :: "future list"
  slot_writes :: "handler list"
  handler_errors :: "error list"

type_synonym device = host

text \<open>The result of running a coroutine: it returns, raises, or stays suspended.\<close>

datatype outcome = Returned | Raised error | Blocked

definition send_hci_packet :: "device \<Rightarrow> hci_command \<Rightarrow> device" where
  "send_hci_packet dev packet = dev\<lparr>sent := sent dev @ [to_bytes packet]\<rparr>"

text \<open>\<^verbatim>\<open>await device.host.send_command(command, check_result=True)\<close>\<close>

definition send_command :: "device \<Rightarrow> hci_command \<Rightarrow> outcome \<times> device" where
  "send_command dev command =
     (let dev' = send_hci_packet dev command;
          status = controller dev (to_bytes command)
      in if status = 0 then (Returned, dev') else (Raised (HCI_Error status), dev'))"

definition create_future :: "device \<Rightarrow> nat \<times> device" where
  "create_future dev = (length (futures dev), dev\<lparr>futures := futures dev @ [Pending]\<rparr>)"

definition future_state :: "device \<Rightarrow> nat \<Rightarrow> future" where
  "future_state dev fut = (if fut < length (futures dev) then futures dev ! fut else Pending)"

text \<open>
  \<^verbatim>\<open>future.set_result(None)\<close> and \<^verbatim>\<open>future.set_exception(e)\<close>: a future that is
  already done raises \<open>InvalidStateError\<close> and keeps its state.
\<close>

definition resolve :: "nat \<Rightarrow> future \<Rightarrow> device \<Rightarrow> error option \<times> device" where
  "resolve fut v dev =
     (if future_state dev fut = Pending
      then (None, dev\<lparr>futures := (futures dev)[fut := v]\<rparr>)
      else (Some InvalidStateError, dev))"

definition set_result :: "nat \<Rightarrow> device \<Rightarrow> error option \<times> device" where
  "set_result fut dev = resolve fut Result dev"

definition set_exception :: "nat \<Rightarrow> error \<Rightarrow> device \<Rightarrow> error option \<times> device" where
  "set_exception fut e dev = resolve fut (Exception e) dev"

text \<open>\<^verbatim>\<open>device.host.on_hci_event = h\<close>\<close>

definition assign_on_hci_event :: "handler \<Rightarrow> device \<Rightarrow> device" where
  "assign_on_hci_event h dev =
     dev\<lparr>on_hci_event := h, slot_writes := slot_writes dev @ [h]\<rparr>"

text \<open>
  The closure of lines 127--135, with the captured \<^verbatim>\<open>future\<close> and the call of
  \<^verbatim>\<open>origin_on_hci_event\<close> as parameters.  The condition is Python's
  \<^verbatim>\<open>res[0] == 0xC2 and res[9] + res[10] << 8 == 0\<close>: \<^verbatim>\<open>and\<close> does not read bytes 9 and
  10 when the first conjunct fails, and \<^verbatim>\<open>+\<close> binds tighter than \<^verbatim>\<open><<\<close>, which binds
  tighter than \<^verbatim>\<open>==\<close>.  The result is what the call raises, if anything.
\<close>

definition csr_on_hci_event ::
  "nat \<Rightarrow> (hci_event \<Rightarrow> device \<Rightarrow> error option \<times> device) \<Rightarrow>
   hci_event \<Rightarrow> device \<Rightarrow> error option \<times> device" where
  "csr_on_hci_event fut origin_on_hci_event event dev =
     (if event_code event = 0xFF then
        (let res = event_parameters event
         in case idx res 0 of
              Inl e \<Rightarrow> (Some e, dev)
            | Inr r0 \<Rightarrow>
                if r0 = 0xC2 then
                  (case idx res 9 of
                     Inl e \<Rightarrow> (Some e, dev)
                   | Inr r9 \<Rightarrow>
                       (case idx res 10 of
                          Inl e \<Rightarrow> (Some e, dev)
                        | Inr r10 \<Rightarrow>
                            if push_bit 8 (uint r9 + uint r10) = (0 :: int)
                            then set_result fut dev
                            else set_exception fut CSRWriteFailed dev))
                else set_exception fut CSRWriteFailed dev)
      else origin_on_hci_event event dev)"

fun call_handler :: "handler \<Rightarrow> hci_event \<Rightarrow> device \<Rightarrow> error option \<times> device" where
  "call_handler (External h) event dev =
     (None, dev\<lparr>delivered := delivered dev @ [(h, event)]\<rparr>)"
| "call_handler (Csr_on_hci_event fut origin) event dev =
     csr_on_hci_event fut (\<lambda>ev d. call_handler origin ev d) event dev"

text \<open>The host hands one incoming notification to whatever the slot holds.\<close>

definition dispatch :: "hci_event \<Rightarrow> device \<Rightarrow> device" where
  "dispatch event dev =
     (case call_handler (on_hci_event dev) event dev of
        (None, dev') \<Rightarrow> dev'
      | (Some e, dev') \<Rightarrow> dev'\<lparr>handler_errors := handler_errors dev' @ [e]\<rparr>)"

text \<open>
  \<^verbatim>\<open>await future\<close>: the coroutine resumes as soon as the future is done; until then the
  incoming notifications are dispatched one by one.  When they run out while the
  future is still pending, the coroutine never resumes.
\<close>

fun await_loop :: "nat \<Rightarrow> hci_event list \<Rightarrow> device \<Rightarrow> outcome \<times> device" where
  "await_loop fut [] dev =
     (case future_state dev fut of
        Result \<Rightarrow> (Returned, dev\<lparr>incoming := []\<rparr>)
      | Exception e \<Rightarrow> (Raised e, dev\<lparr>incoming := []\<rparr>)
      | Pending \<Rightarrow> (Blocked, dev\<lparr>incoming := []\<rparr>))"
| "await_loop fut (event # events) dev =
     (case future_state dev fut of
        Result \<Rightarrow> (Returned, dev\<lparr>incoming := event # events\<rparr>)
      | Exception e \<Rightarrow> (Raised e, dev\<lparr>incoming := event # events\<rparr>)
      | Pending \<Rightarrow> await_loop fut events (dispatch event dev))"

definition await_future :: "nat \<Rightarrow> device \<Rightarrow> outcome \<times> device" where
  "await_future fut dev = await_loop fut (incoming dev) dev"

text \<open>
  \<^verbatim>\<open>_csr_get_response\<close>, lines 122--142.  The \<^verbatim>\<open>try\<close> body installs the closure;
  the bare \<^verbatim>\<open>except\<close> fails the future; the \<^verbatim>\<open>finally\<close> block assigns the saved handler
  back; only then comes \<^verbatim>\<open>return await future\<close>.
\<close>

definition csr_get_response :: "device \<Rightarrow> outcome \<times> device" where
  "csr_get_response dev =
     (let (future, dev) = create_future dev;
          origin_on_hci_event = on_hci_event dev;
          dev = (if install_raises dev
                 then snd (set_exception future SomeErrorOccurred dev)
                 else assign_on_hci_event (Csr_on_hci_event future origin_on_hci_event) dev);
          dev = assign_on_hci_event origin_on_hci_event dev
      in await_future future dev)"

section \<open>Vendor write and reset paths\<close>

definition ericsson_bdaddr :: "device \<Rightarrow> address \<Rightarrow> outcome \<times> device" where
  "ericsson_bdaddr dev address = send_command dev (Ericsson_Write_BDAddr_Command address)"

definition intel_bdaddr :: "device \<Rightarrow> address \<Rightarrow> outcome \<times> device" where
  "intel_bdaddr dev address = send_command dev (Intel_Write_BDAddr_Command address)"

definition csr_bdaddr :: "device \<Rightarrow> address \<Rightarrow> bool \<Rightarrow> outcome \<times> device" where
  "csr_bdaddr dev address transient =
     (case csr_bdaddr_payload address transient of
        Inl e \<Rightarrow> (Raised e, dev)
      | Inr payload \<Rightarrow>
          csr_get_response (send_hci_packet dev (CSR_Write_BDAddr_Command payload)))"

definition csr_reset :: "device \<Rightarrow> bool \<Rightarrow> outcome \<times> device" where
  "csr_reset dev transient =
     csr_get_response
       (send_hci_packet dev (CSR_Write_BDAddr_Command (csr_reset_payload transient)))"

definition ti_bdaddr :: "device \<Rightarrow> address \<Rightarrow> outcome \<times> device" where
  "ti_bdaddr dev address = send_command dev (TI_Write_BDAddr_Command address)"

definition bcm_bdaddr :: "device \<Rightarrow> address \<Rightarrow> outcome \<times> device" where
  "bcm_bdaddr dev address = send_command dev (BCM_Write_BDAddr_Command address)"

definition zeevo_bdaddr :: "device \<Rightarrow> address \<Rightarrow> outcome \<times> device" where
  "zeevo_bdaddr dev address = send_command dev (Zeevo_Write_BDAddr_Command address)"

definition st_bdaddr :: "device \<Rightarrow> address \<Rightarrow> outcome \<times> device" where
  "st_bdaddr dev address =
     send_command dev (Ericsson_Store_In_Flash_Command 0xFE 6 (address_bytes address))"

definition cys_bdaddr :: "device \<Rightarrow> address \<Rightarrow> outcome \<times> device" where
  "cys_bdaddr dev address = send_command dev (CYS_Write_BDAddr_Command address)"

section \<open>The dispatcher\<close>

text \<open>The first \<^verbatim>\<open>match\<close> of \<^verbatim>\<open>bdaddr\<close> (lines 19--39).\<close>

definition bdaddr_write :: "nat \<Rightarrow> device \<Rightarrow> address \<Rightarrow> outcome \<times> device" where
  "bdaddr_write cid dev address =
     (if cid = 0 then ericsson_bdaddr dev address
      else if cid = 2 then intel_bdaddr dev address
      else if cid = 10 then csr_bdaddr dev address False
      else if cid = 13 then ti_bdaddr dev address
      else if cid = 15 then bcm_bdaddr dev address
      else if cid = 18 then zeevo_bdaddr dev address
      else if cid = 48 then st_bdaddr dev address
      else if cid = 57 then ericsson_bdaddr dev address
      else if cid = 305 then cys_bdaddr dev address
      else (Raised UnsupportedManufacturer, dev))"

text \<open>The second \<^verbatim>\<open>match\<close> (lines 41--61), entered when \<^verbatim>\<open>reset\<close> is true.\<close>

definition bdaddr_reset :: "nat \<Rightarrow> device \<Rightarrow> outcome \<times> device" where
  "bdaddr_reset cid dev =
     (if cid = 0 then (Returned, dev)
      else if cid = 2 then (Returned, dev)
      else if cid = 10 then csr_reset dev False
      else if cid = 13 then (Returned, dev)
      else if cid = 15 then send_command dev HCI_Reset_Command
      else if cid = 18 then (Returned, dev)
      else if cid = 48 then send_command dev HCI_Reset_Command
      else if cid = 57 then send_command dev HCI_Reset_Command
      else if cid = 305 then (Returned, dev)
      else (Raised UnsupportedManufacturer, dev))"

definition bdaddr :: "device \<Rightarrow> address \<Rightarrow> bool \<Rightarrow> outcome \<times> device" where
  "bdaddr dev address reset =
     (if address_type address \<noteq> PUBLIC_DEVICE_ADDRESS then (Raised InvalidAddressType, dev)
      else case local_version dev of
        None \<Rightarrow> (Raised MissingIdentification, dev)
      | Some version \<Rightarrow>
          (let cid = company_identifier version
           in case bdaddr_write cid dev address of
                (Returned, dev') \<Rightarrow>
                  if reset then bdaddr_reset cid dev' else (Returned, dev')
              | (Raised e, dev') \<Rightarrow> (Raised e, dev')
              | (Blocked, dev') \<Rightarrow> (Blocked, dev')))"

section \<open>Concrete inputs\<close>

text \<open>
  A public address whose stored bytes (\<^verbatim>\<open>bytes(address)\<close>) are AA BB CC DD EE FF,
  and one of random type with the same bytes.
\<close>

definition example_address :: address where
  "example_address =
     \<lparr>address_bytes = [0xAA, 0xBB, 0xCC, 0xDD, 0xEE, 0xFF], address_type = 0\<rparr>"

definition example_random_address :: address where
  "example_random_address =
     \<lparr>address_bytes = [0xAA, 0xBB, 0xCC, 0xDD, 0xEE, 0xFF], address_type = 1\<rparr>"

text \<open>
  An unrelated notification (a command-complete event) and a vendor event on the 0xC2
  channel whose bytes 9 and 10 are zero.
\<close>

definition example_event :: hci_event where
  "example_event = \<lparr>event_code = 0x0E, event_parameters = [0x01, 0x03, 0x0C, 0x00]\<rparr>"

definition example_success_event :: hci_event where
  "example_success_event =
     \<lparr>event_code = 0xFF,
      event_parameters =
        [0xC2, 0x01, 0x00, 0x0c, 0x00, 0x11, 0x47, 0x03, 0x70, 0x00, 0x00]\<rparr>"

text \<open>The same vendor event with the status field 0x0001 in bytes 9 and 10.\<close>

definition example_failure_event :: hci_event where
  "example_failure_event =
     \<lparr>event_code = 0xFF,
      event_parameters =
        [0xC2, 0x01, 0x00, 0x0c, 0x00, 0x11, 0x47, 0x03, 0x70, 0x01, 0x00]\<rparr>"

text \<open>
  A CSR controller (company identifier 10) that accepts every command and will emit
  two unrelated notifications followed by the success event; the handler installed
  beforehand is the external handler 0.
\<close>

definition example_host :: host where
  "example_host =
     \<lparr>on_hci_event = External 0,
      local_version = Some \<lparr>company_identifier = 10\<rparr>,
      controller = (\<lambda>packet. 0),
      incoming = [example_event, example_event, example_success_event],
      install_raises = False,
      sent = [], delivered = [], futures = [], slot_writes = [], handler_errors = []\<rparr>"

section \<open>The CSR write packet\<close>

lemma csr_bdaddr_payload_value:
  assumes "length (address_bytes a) = 6"
  shows "csr_bdaddr_payload a transient =
     Inr (0xC2 # (if transient then csr_write_template[14 := 0x08] else csr_write_template)
        [16 := address_bytes a ! 2, 17 := 0x00, 18 := address_bytes a ! 0,
         19 := address_bytes a ! 1, 20 := address_bytes a ! 3, 21 := 0x00,
         22 := address_bytes a ! 4, 23 := address_bytes a ! 5])"
proof -
  from assms have "address_bytes a \<noteq> []" by auto
  with assms show ?thesis
    by (simp add: csr_bdaddr_payload_def idx_def bind_e_def Let_def)
qed

text \<open>
  C2.  For every 6-byte address and either value of the transient flag, the CSR write
  encoder yields a packet that starts with the channel marker 0xC2, followed by a
  24-byte body in which offset 16 holds address byte 2, offset 17 is 0x00, offset 18
  holds address byte 0, offset 19 address byte 1, offset 20 address byte 3, offset 21
  is 0x00, offsets 22 and 23 hold address bytes 4 and 5, offset 14 is 0x08 when
  transient and 0x00 otherwise, and every other offset holds the template's byte.
\<close>

theorem csr_write_layout:
  assumes "length (address_bytes a) = 6"
  shows "\<exists>body. csr_bdaddr_payload a transient = Inr (0xC2 # body) \<and> length body = 24
     \<and> body ! 16 = address_bytes a ! 2 \<and> body ! 17 = 0x00
     \<and> body ! 18 = address_bytes a ! 0 \<and> body ! 19 = address_bytes a ! 1
     \<and> body ! 20 = address_bytes a ! 3 \<and> body ! 21 = 0x00
     \<and> body ! 22 = address_bytes a ! 4 \<and> body ! 23 = address_bytes a ! 5
     \<and> body ! 14 = (if transient then 0x08 else 0x00)
     \<and> (\<forall>i<24. i \<notin> {14, 16, 17, 18, 19, 20, 21, 22, 23} \<longrightarrow> body ! i = csr_write_template ! i)"
proof -
  have len: "length csr_write_template = 24" by (simp add: csr_write_template_def)
  have t14: "csr_write_template ! 14 = 0x00" by (simp add: csr_write_template_def)
  show ?thesis
    unfolding csr_bdaddr_payload_value [OF assms]
    by (rule exI, rule conjI, rule refl) (simp add: len t14)
qed

theorem csr_write_layout_witness:
  "length (address_bytes example_address) = 6 \<and>
   (\<exists>body. csr_bdaddr_payload example_address True = Inr (0xC2 # body) \<and> length body = 24
     \<and> body ! 14 = 0x08 \<and> body ! 16 = 0xCC \<and> body ! 17 = 0x00 \<and> body ! 18 = 0xAA \<and> body ! 19 = 0xBB
     \<and> body ! 20 = 0xDD \<and> body ! 21 = 0x00 \<and> body ! 22 = 0xEE \<and> body ! 23 = 0xFF)"
proof -
  have h: "length (address_bytes example_address) = 6" by (simp add: example_address_def)
  from csr_write_layout [OF h, of True] obtain body where
    b: "csr_bdaddr_payload example_address True = Inr (0xC2 # body)" "length body = 24"
     "body ! 16 = address_bytes example_address ! 2" "body ! 17 = 0x00"
     "body ! 18 = address_bytes example_address ! 0" "body ! 19 = address_bytes example_address ! 1"
     "body ! 20 = address_bytes example_address ! 3" "body ! 21 = 0x00"
     "body ! 22 = address_bytes example_address ! 4" "body ! 23 = address_bytes example_address ! 5"
     "body ! 14 = (if True then 0x08 else 0x00)"
    by blast
  from b(3,5,6,7,9,10,11) have
    "body ! 16 = 0xCC" "body ! 18 = 0xAA" "body ! 19 = 0xBB" "body ! 20 = 0xDD"
    "body ! 22 = 0xEE" "body ! 23 = 0xFF" "body ! 14 = 0x08"
    by (simp_all add: example_address_def)
  with h b(1,2,4,8) show ?thesis by blast
qed

text \<open>
  C4, as stated, fails: for the address with the stored bytes AA BB CC DD EE FF the
  non-transient packet has 25 bytes, not the 20 of a 19-byte body with a one-byte
  prefix.
\<close>

theorem csr_write_length_counterexample:
  "map_sum id length (csr_bdaddr_payload example_address False) = Inr 25 \<and>
   map_sum id length (csr_bdaddr_payload example_address False) \<noteq> Inr (19 + 1)"
proof -
  have h: "length (address_bytes example_address) = 6" by (simp add: example_address_def)
  show ?thesis
    by (simp add: csr_bdaddr_payload_value [OF h] csr_write_template_def)
qed

text \<open>
  C4, amended.  For every 6-byte address the CSR write packet assembled non-transiently
  is the one-byte prefix 0xC2 followed by a 24-byte body, 25 bytes in all; the body
  starts with the two bytes 02 00, after which 22 bytes remain.
\<close>

theorem csr_write_length:
  assumes "length (address_bytes a) = 6"
  shows "\<exists>rest. csr_bdaddr_payload a False = Inr (0xC2 # 0x02 # 0x00 # rest) \<and> length rest = 22
          \<and> length (0xC2 # 0x02 # 0x00 # rest) = 1 + 24"
  unfolding csr_bdaddr_payload_value [OF assms]
  by (simp add: csr_write_template_def)

theorem csr_write_length_witness:
  "length (address_bytes example_address) = 6 \<and>
   (\<exists>rest. csr_bdaddr_payload example_address False = Inr (0xC2 # 0x02 # 0x00 # rest) \<and> length rest = 22
          \<and> length (0xC2 # 0x02 # 0x00 # rest) = 1 + 24)"
proof -
  have h: "length (address_bytes example_address) = 6" by (simp add: example_address_def)
  from h csr_write_length [OF h] show ?thesis by blast
qed

section \<open>The standard encoders\<close>

lemma op_codes:
  "hci_command_op_code 0x3F 0x000D = 0xFC0D"
  "hci_command_op_code 0x3F 0x0031 = 0xFC31"
  "hci_command_op_code 0x3F 0x0006 = 0xFC06"
  "hci_command_op_code 0x3F 0x0001 = 0xFC01"
  "hci_command_op_code 0x3F (Suc 0) = 0xFC01"
  "hci_command_op_code 0x3F 0x0022 = 0xFC22"
  "hci_command_op_code 0x3F 0x0000 = 0xFC00"
  "hci_command_op_code 0x03 0x0003 = 0x0C03"
  by (simp_all add: hci_command_op_code_def)

lemma sent_send_command:
  "sent (snd (send_command dev c)) = sent dev @ [to_bytes c]"
  by (simp add: send_command_def send_hci_packet_def Let_def)

text \<open>
  C7.  Each of the six standard write paths (Ericsson, Intel, TI, BCM, Zeevo, CYS)
  hands the transport one command, the serialised object of its class; the op-code of
  that object has the namespace 0x3F and the command number 0x000D, 0x0031, 0x0006,
  0x0001, 0x0001 and 0x0001 respectively, and its parameters are the address bytes in
  their stored order, for every address.
\<close>

theorem standard_write_commands:
  "sent (snd (ericsson_bdaddr dev a)) = sent dev @ [to_bytes (Ericsson_Write_BDAddr_Command a)]
   \<and> op_code_ogf (op_code (Ericsson_Write_BDAddr_Command a)) = 0x3F
   \<and> op_code_ocf (op_code (Ericsson_Write_BDAddr_Command a)) = 0x000D
   \<and> parameters (Ericsson_Write_BDAddr_Command a) = address_bytes a
   \<and> sent (snd (intel_bdaddr dev a)) = sent dev @ [to_bytes (Intel_Write_BDAddr_Command a)]
   \<and> op_code_ogf (op_code (Intel_Write_BDAddr_Command a)) = 0x3F
   \<and> op_code_ocf (op_code (Intel_Write_BDAddr_Command a)) = 0x0031
   \<and> parameters (Intel_Write_BDAddr_Command a) = address_bytes a
   \<and> sent (snd (ti_bdaddr dev a)) = sent dev @ [to_bytes (TI_Write_BDAddr_Command a)]
   \<and> op_code_ogf (op_code (TI_Write_BDAddr_Command a)) = 0x3F
   \<and> op_code_ocf (op_code (TI_Write_BDAddr_Command a)) = 0x0006
   \<and> parameters (TI_Write_BDAddr_Command a) = address_bytes a
   \<and> sent (snd (bcm_bdaddr dev a)) = sent dev @ [to_bytes (BCM_Write_BDAddr_Command a)]
   \<and> op_code_ogf (op_code (BCM_Write_BDAddr_Command a)) = 0x3F
   \<and> op_code_ocf (op_code (BCM_Write_BDAddr_Command a)) = 0x0001
   \<and> parameters (BCM_Write_BDAddr_Command a) = address_bytes a
   \<and> sent (snd (zeevo_bdaddr dev a)) = sent dev @ [to_bytes (Zeevo_Write_BDAddr_Command a)]
   \<and> op_code_ogf (op_code (Zeevo_Write_BDAddr_Command a)) = 0x3F
   \<and> op_code_ocf (op_code (Zeevo_Write_BDAddr_Command a)) = 0x0001
   \<and> parameters (Zeevo_Write_BDAddr_Command a) = address_bytes a
   \<and> sent (snd (cys_bdaddr dev a)) = sent dev @ [to_bytes (CYS_Write_BDAddr_Command a)]
   \<and> op_code_ogf (op_code (CYS_Write_BDAddr_Command a)) = 0x3F
   \<and> op_code_ocf (op_code (CYS_Write_BDAddr_Command a)) = 0x0001
   \<and> parameters (CYS_Write_BDAddr_Command a) = address_bytes a"
  by (simp add: ericsson_bdaddr_def intel_bdaddr_def ti_bdaddr_def bcm_bdaddr_def
      zeevo_bdaddr_def cys_bdaddr_def sent_send_command
      Ericsson_Write_BDAddr_Command_def Intel_Write_BDAddr_Command_def
      TI_Write_BDAddr_Command_def BCM_Write_BDAddr_Command_def
      Zeevo_Write_BDAddr_Command_def CYS_Write_BDAddr_Command_def
      op_codes op_code_ogf_def op_code_ocf_def)

lemma to_bytes_address_command:
  "to_bytes \<lparr>name = n, op_code = 0xFC01, parameters = ps\<rparr> =
     [0x01, 0x01, 0xFC, of_nat (length ps)] @ ps"
  by (simp add: to_bytes_def)

text \<open>
  C10.  The BCM, Zeevo and CYS write paths are the same function of device and
  address: their command objects carry the same op-code (namespace 0x3F, number
  0x0001) and the same parameters, so their serialised packets coincide byte for byte,
  and so does everything the paths do with them.
\<close>

theorem bcm_zeevo_cys_identical:
  "bcm_bdaddr = zeevo_bdaddr \<and> zeevo_bdaddr = cys_bdaddr
   \<and> op_code (BCM_Write_BDAddr_Command a) = hci_command_op_code 0x3F 0x0001
   \<and> op_code (Zeevo_Write_BDAddr_Command a) = hci_command_op_code 0x3F 0x0001
   \<and> op_code (CYS_Write_BDAddr_Command a) = hci_command_op_code 0x3F 0x0001
   \<and> parameters (BCM_Write_BDAddr_Command a) = address_bytes a
   \<and> parameters (Zeevo_Write_BDAddr_Command a) = address_bytes a
   \<and> parameters (CYS_Write_BDAddr_Command a) = address_bytes a
   \<and> to_bytes (BCM_Write_BDAddr_Command a) = to_bytes (Zeevo_Write_BDAddr_Command a)
   \<and> to_bytes (Zeevo_Write_BDAddr_Command a) = to_bytes (CYS_Write_BDAddr_Command a)
   \<and> sent (snd (bcm_bdaddr dev a)) =
       sent dev @ [[0x01, 0x01, 0xFC, of_nat (length (address_bytes a))] @ address_bytes a]"
proof -
  have b: "to_bytes (BCM_Write_BDAddr_Command x) =
             [0x01, 0x01, 0xFC, of_nat (length (address_bytes x))] @ address_bytes x" for x
    by (simp add: BCM_Write_BDAddr_Command_def op_codes to_bytes_address_command)
  have z: "to_bytes (Zeevo_Write_BDAddr_Command x) = to_bytes (BCM_Write_BDAddr_Command x)" for x
    by (simp add: b Zeevo_Write_BDAddr_Command_def op_codes to_bytes_address_command)
  have c: "to_bytes (CYS_Write_BDAddr_Command x) = to_bytes (BCM_Write_BDAddr_Command x)" for x
    by (simp add: b CYS_Write_BDAddr_Command_def op_codes to_bytes_address_command)
  have f1: "bcm_bdaddr = zeevo_bdaddr"
    by (intro ext) (simp add: bcm_bdaddr_def zeevo_bdaddr_def send_command_def send_hci_packet_def z)
  have f2: "zeevo_bdaddr = cys_bdaddr"
    by (intro ext) (simp add: cys_bdaddr_def zeevo_bdaddr_def send_command_def send_hci_packet_def z c)
  have s: "sent (snd (bcm_bdaddr dev a)) =
       sent dev @ [[0x01, 0x01, 0xFC, of_nat (length (address_bytes a))] @ address_bytes a]"
    by (simp only: bcm_bdaddr_def sent_send_command b)
  have o: "op_code (BCM_Write_BDAddr_Command a) = hci_command_op_code 0x3F 0x0001"
    "op_code (Zeevo_Write_BDAddr_Command a) = hci_command_op_code 0x3F 0x0001"
    "op_code (CYS_Write_BDAddr_Command a) = hci_command_op_code 0x3F 0x0001"
    "parameters (BCM_Write_BDAddr_Command a) = address_bytes a"
    "parameters (Zeevo_Write_BDAddr_Command a) = address_bytes a"
    "parameters (CYS_Write_BDAddr_Command a) = address_bytes a"
    by (simp_all add: BCM_Write_BDAddr_Command_def Zeevo_Write_BDAddr_Command_def
        CYS_Write_BDAddr_Command_def)
  from f1 f2 s o z c show ?thesis by simp
qed

section \<open>The dispatcher\<close>

lemma bdaddr_public:
  assumes "address_type a = PUBLIC_DEVICE_ADDRESS" and "local_version dev = Some v"
  shows "bdaddr dev a reset =
     (case bdaddr_write (company_identifier v) dev a of
        (Returned, dev') \<Rightarrow>
          if reset then bdaddr_reset (company_identifier v) dev' else (Returned, dev')
      | (Raised e, dev') \<Rightarrow> (Raised e, dev')
      | (Blocked, dev') \<Rightarrow> (Blocked, dev'))"
  using assms by (simp add: bdaddr_def Let_def)

text \<open>
  C3, as stated, fails: with no cached local version and an address of random type,
  \<^verbatim>\<open>bdaddr\<close> fails with the address-type error of line 13, not with the
  missing-identification error; the check of the address type comes first.
\<close>

theorem bdaddr_missing_identification_counterexample:
  "bdaddr (example_host\<lparr>local_version := None\<rparr>) example_random_address False =
     (Raised InvalidAddressType, example_host\<lparr>local_version := None\<rparr>)
   \<and> fst (bdaddr (example_host\<lparr>local_version := None\<rparr>) example_random_address False)
       \<noteq> Raised MissingIdentification"
  by (simp add: bdaddr_def example_random_address_def PUBLIC_DEVICE_ADDRESS_def)

text \<open>
  C3, amended.  Called with an address of public type, \<^verbatim>\<open>bdaddr\<close> fails with the
  missing-identification error when there is no cached local version, and with the
  unsupported-manufacturer error when the company identifier is none of 0, 2, 10, 13,
  15, 18, 48, 57, 305, the device untouched in both cases.  For each of those nine
  identifiers, and whatever the reset flag, it runs exactly the write path of the
  identifier's vendor (0 and 57 both the Ericsson path) on the device it was given:
  what that path raises, or its never returning, is the result of \<^verbatim>\<open>bdaddr\<close>, and
  when it returns, the reset step, if requested, starts from the device it left.
\<close>

theorem bdaddr_dispatch:
  assumes "address_type a = PUBLIC_DEVICE_ADDRESS"
  shows "(local_version dev = None \<longrightarrow> bdaddr dev a reset = (Raised MissingIdentification, dev))
   \<and> (\<forall>v. local_version dev = Some v
          \<and> company_identifier v \<notin> {0, 2, 10, 13, 15, 18, 48, 57, 305}
        \<longrightarrow> bdaddr dev a reset = (Raised UnsupportedManufacturer, dev))
   \<and> (\<forall>v path. local_version dev = Some v
          \<and> (company_identifier v, path) \<in>
               {(0, ericsson_bdaddr), (2, intel_bdaddr), (10, \<lambda>d x. csr_bdaddr d x False),
                (13, ti_bdaddr), (15, bcm_bdaddr), (18, zeevo_bdaddr), (48, st_bdaddr),
                (57, ericsson_bdaddr), (305, cys_bdaddr)}
        \<longrightarrow> bdaddr dev a reset =
              (case path dev a of
                 (Returned, dev') \<Rightarrow>
                   if reset then bdaddr_reset (company_identifier v) dev'
                   else (Returned, dev')
               | (Raised e, dev') \<Rightarrow> (Raised e, dev')
               | (Blocked, dev') \<Rightarrow> (Blocked, dev')))"
proof (intro conjI allI impI)
  assume "local_version dev = None"
  with assms show "bdaddr dev a reset = (Raised MissingIdentification, dev)"
    by (simp add: bdaddr_def)
next
  fix v
  assume "local_version dev = Some v
          \<and> company_identifier v \<notin> {0, 2, 10, 13, 15, 18, 48, 57, 305}"
  with assms show "bdaddr dev a reset = (Raised UnsupportedManufacturer, dev)"
    by (simp add: bdaddr_def bdaddr_write_def Let_def)
next
  fix v path
  assume h: "local_version dev = Some v
          \<and> (company_identifier v, path) \<in>
               {(0, ericsson_bdaddr), (2, intel_bdaddr), (10, \<lambda>d x. csr_bdaddr d x False),
                (13, ti_bdaddr), (15, bcm_bdaddr), (18, zeevo_bdaddr), (48, st_bdaddr),
                (57, ericsson_bdaddr), (305, cys_bdaddr)}"
  then have lv: "local_version dev = Some v" by simp
  from h have w: "bdaddr_write (company_identifier v) dev a = path dev a"
    by (auto simp: bdaddr_write_def)
  show "bdaddr dev a reset =
              (case path dev a of
                 (Returned, dev') \<Rightarrow>
                   if reset then bdaddr_reset (company_identifier v) dev'
                   else (Returned, dev')
               | (Raised e, dev') \<Rightarrow> (Raised e, dev')
               | (Blocked, dev') \<Rightarrow> (Blocked, dev'))"
    unfolding bdaddr_public [OF assms lv] w ..
qed

theorem bdaddr_dispatch_witness:
  "address_type example_address = PUBLIC_DEVICE_ADDRESS
   \<and> bdaddr (example_host\<lparr>local_version := None\<rparr>) example_address True =
       (Raised MissingIdentification, example_host\<lparr>local_version := None\<rparr>)
   \<and> bdaddr (example_host\<lparr>local_version := Some \<lparr>company_identifier = 7\<rparr>\<rparr>)
         example_address True =
       (Raised UnsupportedManufacturer,
        example_host\<lparr>local_version := Some \<lparr>company_identifier = 7\<rparr>\<rparr>)
   \<and> bdaddr (example_host\<lparr>local_version := Some \<lparr>company_identifier = 57\<rparr>\<rparr>)
         example_address True =
       (Returned,
        example_host\<lparr>local_version := Some \<lparr>company_identifier = 57\<rparr>,
          sent := [[0x01, 0x0D, 0xFC, 0x06, 0xAA, 0xBB, 0xCC, 0xDD, 0xEE, 0xFF],
                   [0x01, 0x03, 0x0C, 0x00]]\<rparr>)
   \<and> bdaddr (example_host\<lparr>local_version := Some \<lparr>company_identifier = 0\<rparr>\<rparr>)
         example_address True =
       (Returned,
        example_host\<lparr>local_version := Some \<lparr>company_identifier = 0\<rparr>,
          sent := [[0x01, 0x0D, 0xFC, 0x06, 0xAA, 0xBB, 0xCC, 0xDD, 0xEE, 0xFF]]\<rparr>)"
proof -
  have h: "address_type example_address = PUBLIC_DEVICE_ADDRESS"
    by (simp add: example_address_def PUBLIC_DEVICE_ADDRESS_def)
  have e: "to_bytes (Ericsson_Write_BDAddr_Command example_address) =
             [0x01, 0x0D, 0xFC, 0x06, 0xAA, 0xBB, 0xCC, 0xDD, 0xEE, 0xFF]"
    by (simp add: Ericsson_Write_BDAddr_Command_def to_bytes_def op_codes example_address_def)
  have r: "to_bytes HCI_Reset_Command = [0x01, 0x03, 0x0C, 0x00]"
    by (simp add: HCI_Reset_Command_def to_bytes_def op_codes)
  show ?thesis
    using h
      bdaddr_dispatch [OF h, of "example_host\<lparr>local_version := None\<rparr>" True]
      bdaddr_dispatch [OF h,
        of "example_host\<lparr>local_version := Some \<lparr>company_identifier = 7\<rparr>\<rparr>" True]
      bdaddr_dispatch [OF h,
        of "example_host\<lparr>local_version := Some \<lparr>company_identifier = 57\<rparr>\<rparr>" True]
      bdaddr_dispatch [OF h,
        of "example_host\<lparr>local_version := Some \<lparr>company_identifier = 0\<rparr>\<rparr>" True]
    by (simp add: ericsson_bdaddr_def send_command_def send_hci_packet_def bdaddr_reset_def
        e r example_host_def)
qed

text \<open>
  C9.  For every address whose type is not the public device address type, whatever
  the identification data and the reset flag, \<^verbatim>\<open>bdaddr\<close> fails with the address-type
  error and leaves the device as it was: nothing is built, nothing is sent.
\<close>

theorem bdaddr_rejects_non_public:
  assumes "address_type a \<noteq> PUBLIC_DEVICE_ADDRESS"
  shows "bdaddr dev a reset = (Raised InvalidAddressType, dev)"
  using assms by (simp add: bdaddr_def)

theorem bdaddr_rejects_non_public_witness:
  "address_type example_random_address \<noteq> PUBLIC_DEVICE_ADDRESS
   \<and> bdaddr example_host example_random_address True =
       (Raised InvalidAddressType, example_host)"
proof -
  have h: "address_type example_random_address \<noteq> PUBLIC_DEVICE_ADDRESS"
    by (simp add: example_random_address_def PUBLIC_DEVICE_ADDRESS_def)
  from h bdaddr_rejects_non_public [OF h, of example_host True] show ?thesis by simp
qed

section \<open>The event correlator\<close>

lemma resolve_frame:
  "on_hci_event (snd (resolve fut v dev)) = on_hci_event dev"
  "slot_writes (snd (resolve fut v dev)) = slot_writes dev"
  "sent (snd (resolve fut v dev)) = sent dev"
  by (simp_all add: resolve_def)

lemma call_handler_frame:
  "on_hci_event (snd (call_handler h ev dev)) = on_hci_event dev
   \<and> slot_writes (snd (call_handler h ev dev)) = slot_writes dev
   \<and> sent (snd (call_handler h ev dev)) = sent dev"
proof (induction h)
  case (External n)
  show ?case by simp
next
  case (Csr_on_hci_event fut origin)
  then show ?case
    by (simp add: csr_on_hci_event_def set_result_def set_exception_def resolve_frame
        Let_def split: sum.splits)
qed

lemma dispatch_frame:
  "on_hci_event (dispatch ev dev) = on_hci_event dev
   \<and> slot_writes (dispatch ev dev) = slot_writes dev
   \<and> sent (dispatch ev dev) = sent dev"
  using call_handler_frame [of "on_hci_event dev" ev dev]
  by (cases "call_handler (on_hci_event dev) ev dev")
     (auto simp: dispatch_def split: option.splits)

lemma await_loop_frame:
  "on_hci_event (snd (await_loop fut evs dev)) = on_hci_event dev
   \<and> slot_writes (snd (await_loop fut evs dev)) = slot_writes dev
   \<and> sent (snd (await_loop fut evs dev)) = sent dev"
proof (induction evs arbitrary: dev)
  case Nil
  show ?case by (simp split: future.splits)
next
  case (Cons ev evs)
  show ?case
    by (simp add: Cons.IH dispatch_frame split: future.splits)
qed

text \<open>
  C6.  Whatever the device, the notifications that arrive and the way the wait ends,
  and also when installing the interception raises, \<^verbatim>\<open>_csr_get_response\<close> leaves
  \<^verbatim>\<open>device.host.on_hci_event\<close> equal to the handler it saved, and assigns that saved
  handler back exactly once: the assignments it makes to the slot are the override (if
  its installation did not raise) followed by the single restoring assignment.
\<close>

theorem csr_get_response_restores:
  "on_hci_event (snd (csr_get_response dev)) = on_hci_event dev
   \<and> slot_writes (snd (csr_get_response dev)) =
       slot_writes dev
       @ (if install_raises dev then []
          else [Csr_on_hci_event (length (futures dev)) (on_hci_event dev)])
       @ [on_hci_event dev]"
  by (simp add: csr_get_response_def create_future_def await_future_def await_loop_frame
      assign_on_hci_event_def set_exception_def resolve_frame Let_def)

lemma await_loop_external:
  assumes "on_hci_event dev = External h" "future_state dev fut = Pending"
  shows "await_loop fut evs dev =
           (Blocked, dev\<lparr>incoming := [], delivered := delivered dev @ map (Pair h) evs\<rparr>)"
  using assms
proof (induction evs arbitrary: dev)
  case Nil
  then show ?case by simp
next
  case (Cons ev evs)
  let ?dev' = "dev\<lparr>delivered := delivered dev @ [(h, ev)]\<rparr>"
  have d: "dispatch ev dev = ?dev'"
    using Cons.prems by (simp add: dispatch_def)
  have "on_hci_event ?dev' = External h" "future_state ?dev' fut = Pending"
    using Cons.prems by (auto simp: future_state_def split: if_splits)
  from Cons.IH [OF this] show ?case
    using Cons.prems by (simp add: d)
qed

lemma csr_get_response_external:
  assumes "on_hci_event dev = External h" "\<not> install_raises dev"
  shows "csr_get_response dev =
           (Blocked,
            dev\<lparr>futures := futures dev @ [Pending],
                slot_writes := slot_writes dev
                   @ [Csr_on_hci_event (length (futures dev)) (External h), External h],
                incoming := [],
                delivered := delivered dev @ map (Pair h) (incoming dev)\<rparr>)"
proof -
  let ?d = "dev\<lparr>futures := futures dev @ [Pending],
                on_hci_event := External h,
                slot_writes := slot_writes dev
                   @ [Csr_on_hci_event (length (futures dev)) (External h), External h]\<rparr>"
  have 1: "on_hci_event ?d = External h" by simp
  have 2: "future_state ?d (length (futures dev)) = Pending"
    by (simp add: future_state_def)
  have "csr_get_response dev = await_loop (length (futures dev)) (incoming dev) ?d"
    using assms
    by (simp add: csr_get_response_def create_future_def await_future_def
        assign_on_hci_event_def Let_def)
  also have "\<dots> = (Blocked, ?d\<lparr>incoming := [], delivered := delivered ?d @ map (Pair h) (incoming dev)\<rparr>)"
    by (rule await_loop_external [OF 1 2])
  also have "?d\<lparr>incoming := [], delivered := delivered ?d @ map (Pair h) (incoming dev)\<rparr> =
      dev\<lparr>futures := futures dev @ [Pending],
                slot_writes := slot_writes dev
                   @ [Csr_on_hci_event (length (futures dev)) (External h), External h],
                incoming := [],
                delivered := delivered dev @ map (Pair h) (incoming dev)\<rparr>"
    using assms(1) by (intro host.equality) simp_all
  finally show ?thesis .
qed

text \<open>
  C1 does not hold of the code.  With the external handler 0 installed and the
  notifications of \<open>example_host\<close> arriving (two unrelated ones, then the 0xFF event
  with first byte 0xC2 and zero status), \<^verbatim>\<open>_csr_get_response\<close> has already assigned the
  saved handler back when it starts to wait: all three notifications, the third
  included, reach the external handler, the future stays pending, and the coroutine
  never resumes.
\<close>

theorem csr_get_response_restores_before_await:
  "csr_get_response example_host =
     (Blocked,
      example_host\<lparr>futures := [Pending],
         slot_writes := [Csr_on_hci_event 0 (External 0), External 0],
         incoming := [],
         delivered := [(0, example_event), (0, example_event), (0, example_success_event)]\<rparr>)"
proof -
  have "on_hci_event example_host = External 0" "\<not> install_raises example_host"
    by (simp_all add: example_host_def)
  from csr_get_response_external [OF this] show ?thesis
    by (simp add: example_host_def)
qed

text \<open>
  Were the closure still in the slot during the wait, the same three notifications
  would end it as intended: the first two forwarded to the external handler, the
  third resolving the future with success.
\<close>

lemma override_installed_resolves:
  "await_loop 0 [example_event, example_event, example_success_event]
     (example_host\<lparr>on_hci_event := Csr_on_hci_event 0 (External 0), futures := [Pending]\<rparr>)
   = (Returned,
      example_host\<lparr>on_hci_event := Csr_on_hci_event 0 (External 0), futures := [Result],
        incoming := [], delivered := [(0, example_event), (0, example_event)]\<rparr>)"
  by (simp add: example_host_def example_event_def example_success_event_def
      dispatch_def csr_on_hci_event_def idx_def set_result_def resolve_def future_state_def)

subsection \<open>The decision of the closure\<close>

lemma status_zero_iff:
  "push_bit 8 (uint (a :: byte) + uint (b :: byte)) = (0 :: int)
     \<longleftrightarrow> uint a + push_bit 8 (uint b) = (0 :: int)"
proof -
  have n: "0 \<le> uint a" "0 \<le> uint b" by simp_all
  have "push_bit 8 (uint a + uint b) = (0 :: int) \<longleftrightarrow> uint a + uint b = 0"
    by simp
  also from n have "\<dots> \<longleftrightarrow> uint a = 0 \<and> uint b = 0"
    by arith
  also from n have "\<dots> \<longleftrightarrow> uint a + 256 * uint b = 0"
    by arith
  also have "\<dots> \<longleftrightarrow> uint a + push_bit 8 (uint b) = 0"
    by (simp add: push_bit_eq_mult mult.commute)
  finally show ?thesis .
qed

text \<open>
  What the closure decides when it is called with its future pending on a 0xFF-class
  notification long enough for the bytes it reads: success if and only if the first
  byte is 0xC2 and the status field of bytes 9 and 10, the low byte plus the high byte
  shifted left by 8, is zero; the CSR write failure otherwise.
\<close>

lemma csr_on_hci_event_status:
  assumes "event_code ev = 0xFF"
    and "fut < length (futures dev)" and "futures dev ! fut = Pending"
    and "event_parameters ev \<noteq> []"
    and "event_parameters ev ! 0 = 0xC2 \<longrightarrow> 11 \<le> length (event_parameters ev)"
  shows "call_handler (Csr_on_hci_event fut origin) ev dev =
     (None,
      dev\<lparr>futures := (futures dev)
         [fut := (if event_parameters ev ! 0 = 0xC2
                     \<and> uint (event_parameters ev ! 9)
                         + push_bit 8 (uint (event_parameters ev ! 10)) = 0
                  then Result else Exception CSRWriteFailed)]\<rparr>)"
proof (cases "event_parameters ev ! 0 = 0xC2")
  case True
  with assms(5) have "11 \<le> length (event_parameters ev)" by simp
  then have "9 < length (event_parameters ev)" "10 < length (event_parameters ev)"
    by simp_all
  with assms True show ?thesis
    unfolding call_handler.simps csr_on_hci_event_def status_zero_iff
    by (simp add: idx_def set_result_def set_exception_def resolve_def future_state_def
        Let_def del: push_bit_of_0 push_bit_eq_0_iff)
next
  case False
  with assms show ?thesis
    by (simp add: csr_on_hci_event_def idx_def set_exception_def
        resolve_def future_state_def Let_def)
qed

lemma csr_on_hci_event_status_example:
  "event_code example_success_event = 0xFF
   \<and> 0 < length (futures (example_host\<lparr>futures := [Pending]\<rparr>))
   \<and> futures (example_host\<lparr>futures := [Pending]\<rparr>) ! 0 = Pending
   \<and> event_parameters example_success_event \<noteq> []
   \<and> 11 \<le> length (event_parameters example_success_event)
   \<and> call_handler (Csr_on_hci_event 0 (External 0)) example_success_event
        (example_host\<lparr>futures := [Pending]\<rparr>)
      = (None, example_host\<lparr>futures := [Result]\<rparr>)"
proof -
  have h: "event_code example_success_event = 0xFF"
    "0 < length (futures (example_host\<lparr>futures := [Pending]\<rparr>))"
    "futures (example_host\<lparr>futures := [Pending]\<rparr>) ! 0 = Pending"
    "event_parameters example_success_event \<noteq> []"
    "11 \<le> length (event_parameters example_success_event)"
    by (simp_all add: example_success_event_def)
  from h(5) have h5: "event_parameters example_success_event ! 0 = 0xC2
      \<longrightarrow> 11 \<le> length (event_parameters example_success_event)" by simp
  from csr_on_hci_event_status [OF h(1-4) h5, of "External 0"]
  have "call_handler (Csr_on_hci_event 0 (External 0)) example_success_event
        (example_host\<lparr>futures := [Pending]\<rparr>)
      = (None, example_host\<lparr>futures := [Result]\<rparr>)"
    by (simp add: example_success_event_def)
  with h show ?thesis by simp
qed

lemma closure_would_fail_on_failure_event:
  "await_loop 0 [example_failure_event]
     (example_host\<lparr>on_hci_event := Csr_on_hci_event 0 (External 0), futures := [Pending]\<rparr>)
   = (Raised CSRWriteFailed,
      example_host\<lparr>on_hci_event := Csr_on_hci_event 0 (External 0),
        futures := [Exception CSRWriteFailed], incoming := []\<rparr>)"
  by (simp add: example_host_def example_failure_event_def
      dispatch_def csr_on_hci_event_def idx_def set_exception_def resolve_def future_state_def)

text \<open>
  C5 does not hold of the code.  A 0xFF-class notification that arrives while
  \<^verbatim>\<open>_csr_get_response\<close> waits resolves nothing, since the closure is no longer in the
  slot: the success event (first byte 0xC2, status zero) and the failure event (first
  byte 0xC2, status 0x0001) both go to the external handler, the future stays pending
  and the coroutine neither returns nor raises.
\<close>

theorem csr_get_response_ignores_vendor_events:
  "csr_get_response (example_host\<lparr>incoming := [example_success_event]\<rparr>) =
     (Blocked,
      example_host\<lparr>futures := [Pending],
         slot_writes := [Csr_on_hci_event 0 (External 0), External 0],
         incoming := [],
         delivered := [(0, example_success_event)]\<rparr>)
   \<and> csr_get_response (example_host\<lparr>incoming := [example_failure_event]\<rparr>) =
     (Blocked,
      example_host\<lparr>futures := [Pending],
         slot_writes := [Csr_on_hci_event 0 (External 0), External 0],
         incoming := [],
         delivered := [(0, example_failure_event)]\<rparr>)"
proof -
  have s: "on_hci_event (example_host\<lparr>incoming := [example_success_event]\<rparr>) = External 0"
    "\<not> install_raises (example_host\<lparr>incoming := [example_success_event]\<rparr>)"
    by (simp_all add: example_host_def)
  have f: "on_hci_event (example_host\<lparr>incoming := [example_failure_event]\<rparr>) = External 0"
    "\<not> install_raises (example_host\<lparr>incoming := [example_failure_event]\<rparr>)"
    by (simp_all add: example_host_def)
  show ?thesis
    unfolding csr_get_response_external [OF s] csr_get_response_external [OF f]
    by (simp add: example_host_def)
qed

section \<open>Reset after the write\<close>

lemma await_loop_failed:
  assumes "future_state dev fut = Exception e"
  shows "await_loop fut evs dev = (Raised e, dev\<lparr>incoming := evs\<rparr>)"
  using assms by (cases evs) simp_all

lemma csr_get_response_install_raises:
  assumes "install_raises dev"
  shows "csr_get_response dev =
           (Raised SomeErrorOccurred,
            dev\<lparr>futures := futures dev @ [Exception SomeErrorOccurred],
                slot_writes := slot_writes dev @ [on_hci_event dev]\<rparr>)"
proof -
  let ?d = "dev\<lparr>on_hci_event := on_hci_event dev,
                futures := futures dev @ [Exception SomeErrorOccurred],
                slot_writes := slot_writes dev @ [on_hci_event dev]\<rparr>"
  have f: "future_state ?d (length (futures dev)) = Exception SomeErrorOccurred"
    by (simp add: future_state_def)
  have "csr_get_response dev = await_loop (length (futures dev)) (incoming dev) ?d"
    using assms
    by (simp add: csr_get_response_def create_future_def await_future_def
        assign_on_hci_event_def set_exception_def resolve_def future_state_def Let_def)
  also have "\<dots> = (Raised SomeErrorOccurred, ?d\<lparr>incoming := incoming dev\<rparr>)"
    by (rule await_loop_failed [OF f])
  also have "?d\<lparr>incoming := incoming dev\<rparr> =
      dev\<lparr>futures := futures dev @ [Exception SomeErrorOccurred],
          slot_writes := slot_writes dev @ [on_hci_event dev]\<rparr>"
    by (intro host.equality) simp_all
  finally show ?thesis .
qed

lemma csr_get_response_never_returns:
  assumes "on_hci_event dev = External h"
  shows "fst (csr_get_response dev) \<noteq> Returned"
proof (cases "install_raises dev")
  case True
  then show ?thesis by (simp add: csr_get_response_install_raises)
next
  case False
  with assms show ?thesis by (simp add: csr_get_response_external)
qed

lemma sent_csr_get_response:
  "sent (snd (csr_get_response dev)) = sent dev"
  by (simp add: csr_get_response_def create_future_def await_future_def await_loop_frame
      assign_on_hci_event_def set_exception_def resolve_frame Let_def)

lemma bdaddr_csr_never_resets:
  assumes "address_type a = PUBLIC_DEVICE_ADDRESS"
    and "local_version dev = Some v" and "company_identifier v = 10"
    and "on_hci_event dev = External h"
    and "csr_bdaddr_payload a False = Inr payload"
  shows "fst (bdaddr dev a True) \<noteq> Returned
     \<and> sent (snd (bdaddr dev a True)) =
         sent dev @ [to_bytes (CSR_Write_BDAddr_Command payload)]"
proof -
  let ?d = "send_hci_packet dev (CSR_Write_BDAddr_Command payload)"
  have w: "bdaddr_write 10 dev a = csr_get_response ?d"
    using assms(5) by (simp add: bdaddr_write_def csr_bdaddr_def)
  have "on_hci_event ?d = External h"
    using assms(4) by (simp add: send_hci_packet_def)
  then have n: "fst (csr_get_response ?d) \<noteq> Returned"
    by (rule csr_get_response_never_returns)
  have s: "sent (snd (csr_get_response ?d)) =
             sent dev @ [to_bytes (CSR_Write_BDAddr_Command payload)]"
    by (simp add: sent_csr_get_response) (simp add: send_hci_packet_def)
  have "bdaddr dev a True = csr_get_response ?d"
    using assms(1-3) n
    by (cases "csr_get_response ?d")
       (simp add: bdaddr_def w Let_def split: outcome.splits)
  with n s show ?thesis by simp
qed

lemma bdaddr_reset_dispatch:
  assumes "address_type a = PUBLIC_DEVICE_ADDRESS" and "local_version dev = Some v"
    and "bdaddr_write (company_identifier v) dev a = (Returned, dev')"
  shows "bdaddr dev a True = bdaddr_reset (company_identifier v) dev'"
  using assms by (simp add: bdaddr_def Let_def)

lemma bdaddr_reset_none:
  assumes "cid \<in> {0, 2, 13, 18, 305}"
  shows "bdaddr_reset cid dev = (Returned, dev)"
  using assms by (auto simp: bdaddr_reset_def)

lemma bdaddr_reset_generic:
  assumes "cid \<in> {15, 48, 57}"
  shows "bdaddr_reset cid dev = send_command dev HCI_Reset_Command"
    and "sent (snd (bdaddr_reset cid dev)) = sent dev @ [[0x01, 0x03, 0x0C, 0x00]]"
proof -
  show r: "bdaddr_reset cid dev = send_command dev HCI_Reset_Command"
    using assms by (auto simp: bdaddr_reset_def)
  have "to_bytes HCI_Reset_Command = [0x01, 0x03, 0x0C, 0x00]"
    by (simp add: HCI_Reset_Command_def to_bytes_def op_codes)
  then show "sent (snd (bdaddr_reset cid dev)) = sent dev @ [[0x01, 0x03, 0x0C, 0x00]]"
    by (simp add: r sent_send_command)
qed

lemma bdaddr_reset_csr:
  "bdaddr_reset 10 dev = csr_reset dev False"
  "sent (snd (csr_reset dev False)) =
     sent dev @ [to_bytes (CSR_Write_BDAddr_Command (0xC2 # csr_reset_template))]"
  by (simp_all add: bdaddr_reset_def csr_reset_def sent_csr_get_response
      send_hci_packet_def csr_reset_payload_def)

text \<open>
  C8 does not hold of the code for the company identifier 10.  On the CSR controller
  of \<open>example_host\<close>, which answers the write with the success event, \<^verbatim>\<open>bdaddr\<close> with
  \<^verbatim>\<open>reset=True\<close> sends the write packet and then waits for ever on the future of
  \<^verbatim>\<open>_csr_get_response\<close>: the success event went to the external handler, and the raw
  reset packet is never sent.  (For the other identifiers the reset step is as in
  \<open>bdaddr_reset_none\<close> and \<open>bdaddr_reset_generic\<close>.)
\<close>

theorem bdaddr_csr_reset_not_sent:
  "fst (bdaddr example_host example_address True) = Blocked
   \<and> sent (snd (bdaddr example_host example_address True)) =
       [[0x01, 0x00, 0xFC, 0x19, 0xC2,
         0x02, 0x00, 0x0c, 0x00, 0x11, 0x47, 0x03, 0x70,
         0x00, 0x00, 0x01, 0x00, 0x04, 0x00, 0x00, 0x00,
         0xCC, 0x00, 0xAA, 0xBB, 0xDD, 0x00, 0xEE, 0xFF]]
   \<and> delivered (snd (bdaddr example_host example_address True)) =
       [(0, example_event), (0, example_event), (0, example_success_event)]
   \<and> to_bytes (CSR_Write_BDAddr_Command (csr_reset_payload False))
       \<notin> set (sent (snd (bdaddr example_host example_address True)))"
proof -
  have p: "csr_bdaddr_payload example_address False =
             Inr [0xC2, 0x02, 0x00, 0x0c, 0x00, 0x11, 0x47, 0x03, 0x70,
                  0x00, 0x00, 0x01, 0x00, 0x04, 0x00, 0x00, 0x00,
                  0xCC, 0x00, 0xAA, 0xBB, 0xDD, 0x00, 0xEE, 0xFF]"
    by (simp add: csr_bdaddr_payload_def csr_write_template_def example_address_def
        idx_def bind_e_def Let_def)
  let ?d = "send_hci_packet example_host (CSR_Write_BDAddr_Command
             [0xC2, 0x02, 0x00, 0x0c, 0x00, 0x11, 0x47, 0x03, 0x70,
              0x00, 0x00, 0x01, 0x00, 0x04, 0x00, 0x00, 0x00,
              0xCC, 0x00, 0xAA, 0xBB, 0xDD, 0x00, 0xEE, 0xFF])"
  have e: "on_hci_event ?d = External 0" "\<not> install_raises ?d"
    by (simp_all add: send_hci_packet_def example_host_def)
  have w: "bdaddr_write 10 example_host example_address = csr_get_response ?d"
    by (simp add: bdaddr_write_def csr_bdaddr_def p)
  have lv: "local_version example_host = Some \<lparr>company_identifier = 10\<rparr>"
    by (simp add: example_host_def)
  have pub: "address_type example_address = PUBLIC_DEVICE_ADDRESS"
    by (simp add: example_address_def PUBLIC_DEVICE_ADDRESS_def)
  have b: "bdaddr example_host example_address True = csr_get_response ?d"
    by (simp add: bdaddr_def w lv pub csr_get_response_external [OF e])
  have s: "sent ?d = [[0x01, 0x00, 0xFC, 0x19, 0xC2,
         0x02, 0x00, 0x0c, 0x00, 0x11, 0x47, 0x03, 0x70,
         0x00, 0x00, 0x01, 0x00, 0x04, 0x00, 0x00, 0x00,
         0xCC, 0x00, 0xAA, 0xBB, 0xDD, 0x00, 0xEE, 0xFF]]"
    by (simp add: send_hci_packet_def example_host_def CSR_Write_BDAddr_Command_def
        to_bytes_def op_codes)
  have r: "to_bytes (CSR_Write_BDAddr_Command (csr_reset_payload False)) =
       [0x01, 0x00, 0xFC, 0x13, 0xC2,
         0x02, 0x00, 0x09, 0x00, 0x00, 0x00, 0x01, 0x40,
         0x00, 0x00, 0x00, 0x00, 0x00, 0x00, 0x00, 0x00, 0x00, 0x00]"
    by (simp add: csr_reset_payload_def csr_reset_template_def CSR_Write_BDAddr_Command_def
        to_bytes_def op_codes)
  have i: "incoming ?d = [example_event, example_event, example_success_event]"
    "delivered ?d = []"
    by (simp_all add: send_hci_packet_def example_host_def)
  show ?thesis
    unfolding b csr_get_response_external [OF e] r
    by (simp add: s i)
qed

end
